theory Spec2Isabelle
  imports Complex_Main
begin

section \<open>Dimensioned quantities\<close>

text \<open>
  The three modules under \<^verbatim>\<open>src/Steel\<close> compute with quantities of the \<^verbatim>\<open>pint\<close> unit
  library. That library is an external collaborator of the repository; what the source
  relies on is modelled here: a quantity is a magnitude tagged with a unit, every unit
  has a physical dimension and a size relative to the canonical unit of that dimension
  (inch, ksi, kip), and \<^verbatim>\<open>q.to(u)\<close> either rescales the magnitude or raises
  \<^verbatim>\<open>DimensionalityError\<close>. Only a fragment of the unit registry is listed.

  Python floats are idealised as real numbers: \<^verbatim>\<open>math.pi\<close> is \<open>pi\<close>,
  \<^verbatim>\<open>math.sqrt(2)\<close> is \<open>sqrt 2\<close>, and a decimal literal denotes the rational it spells.

  Once an argument has been normalised with \<^verbatim>\<open>.to('inch')\<close> or \<^verbatim>\<open>.to('ksi')\<close> all
  operands of the arithmetic that follows are in inch and ksi, where \<^verbatim>\<open>pint\<close> combines
  the magnitudes with the arithmetic operator and collects the units symbolically. The
  model therefore continues with the magnitudes; a returned strength is the magnitude of
  a quantity in \<^verbatim>\<open>ksi * inch ** 2\<close>, that is in kip.
\<close>

datatype dimension = Length | Stress | Force

datatype unit = Inch | Foot | Millimeter | Ksi | Psi | Kip

fun dimension_of :: "unit \<Rightarrow> dimension" where
  "dimension_of Inch = Length"
| "dimension_of Foot = Length"
| "dimension_of Millimeter = Length"
| "dimension_of Ksi = Stress"
| "dimension_of Psi = Stress"
| "dimension_of Kip = Force"

text \<open>The size of one unit, in the canonical unit of its dimension.\<close>

fun factor :: "unit \<Rightarrow> real" where
  "factor Inch = 1"
| "factor Foot = 12"
| "factor Millimeter = 10 / 254"
| "factor Ksi = 1"
| "factor Psi = 1 / 1000"
| "factor Kip = 1"

record quantity =
  magnitude :: real
  units :: unit

text \<open>
  The exceptions the modules can raise: \<^verbatim>\<open>ValueError\<close> is the explicit
  \<^verbatim>\<open>raise ValueError("Invalid design method. Use 'ASD' or 'LRFD'.")\<close>;
  \<^verbatim>\<open>DimensionalityError\<close> comes from \<^verbatim>\<open>.to\<close>; \<^verbatim>\<open>UnboundLocalError\<close> is the read of a
  local variable that no branch has assigned; \<^verbatim>\<open>ZeroDivisionError\<close> is a float division
  by zero.
\<close>

datatype error = ValueError | DimensionalityError | UnboundLocalError | ZeroDivisionError

definition bind_err :: "error + 'a \<Rightarrow> ('a \<Rightarrow> error + 'b) \<Rightarrow> error + 'b" where
  "bind_err m f = (case m of Inl e \<Rightarrow> Inl e | Inr x \<Rightarrow> f x)"

definition canonical :: "quantity \<Rightarrow> real" where
  "canonical q = magnitude q * factor (units q)"

text \<open>\<^verbatim>\<open>q.to(u)\<close>, returning the magnitude of the converted quantity.\<close>

definition to_unit :: "quantity \<Rightarrow> unit \<Rightarrow> error + real" where
  "to_unit q u =
     (if dimension_of (units q) = dimension_of u
      then Inr (canonical q / factor u)
      else Inl DimensionalityError)"

text \<open>Float division: Python raises on a zero divisor.\<close>

definition py_div :: "real \<Rightarrow> real \<Rightarrow> error + real" where
  "py_div a b = (if b = 0 then Inl ZeroDivisionError else Inr (a / b))"

section \<open>bolt.py\<close>

definition nominal_fastener_strength :: "quantity \<Rightarrow> error + real \<times> real" where
  "nominal_fastener_strength f_u =
     bind_err (to_unit f_u Ksi) (\<lambda>f_u.
       let f_nv = 0.45 * f_u;
           f_nt = 0.75 * f_u
       in Inr (f_nv, f_nt))"

definition shear_strength_bolts :: "string \<Rightarrow> quantity \<Rightarrow> quantity \<Rightarrow> error + real" where
  "shear_strength_bolts design_method bolt_dia f_u =
     bind_err (nominal_fastener_strength f_u) (\<lambda>(f_nv, _).
     bind_err (to_unit bolt_dia Inch) (\<lambda>bolt_dia.
       let r_n = f_nv * (pi / 4) * bolt_dia ^ 2 in
       if design_method = ''ASD'' then Inr (r_n / 2.00)
       else if design_method = ''LRFD'' then Inr (0.75 * r_n)
       else Inl ValueError))"

definition bearing_strength_bolts ::
  "string \<Rightarrow> quantity \<Rightarrow> quantity \<Rightarrow> quantity \<Rightarrow> quantity \<Rightarrow> quantity \<Rightarrow> error + real \<times> real" where
  "bearing_strength_bolts design_method bolt_dia part1_t part1_ult part2_t part2_ult =
     bind_err (to_unit bolt_dia Inch) (\<lambda>bolt_dia.
     bind_err (to_unit part1_t Inch) (\<lambda>part1_t.
     bind_err (to_unit part2_t Inch) (\<lambda>part2_t.
     bind_err (to_unit part1_ult Ksi) (\<lambda>part1_ult.
     bind_err (to_unit part2_ult Ksi) (\<lambda>part2_ult.
       let r_n1 = 2.4 * bolt_dia * part1_t * part1_ult;
           r_n2 = 2.4 * bolt_dia * part2_t * part2_ult
       in
       if design_method = ''ASD'' then Inr (r_n1 / 2.00, r_n2 / 2.00)
       else if design_method = ''LRFD'' then Inr (0.75 * r_n1, 0.75 * r_n2)
       else Inl ValueError)))))"

definition tearout_strength_bolts ::
  "string \<Rightarrow> quantity \<Rightarrow> quantity \<Rightarrow> quantity \<Rightarrow> quantity \<Rightarrow> quantity \<Rightarrow> quantity \<Rightarrow> quantity
     \<Rightarrow> error + real \<times> real" where
  "tearout_strength_bolts design_method bolt_dia part1_edge_dist part2_edge_dist
       part1_t part1_ult part2_t part2_ult =
     bind_err (to_unit bolt_dia Inch) (\<lambda>bolt_dia.
     bind_err (to_unit part1_edge_dist Inch) (\<lambda>part1_edge_dist.
     bind_err (to_unit part2_edge_dist Inch) (\<lambda>part2_edge_dist.
     bind_err (to_unit part1_t Inch) (\<lambda>part1_t.
     bind_err (to_unit part2_t Inch) (\<lambda>part2_t.
     bind_err (to_unit part1_ult Ksi) (\<lambda>part1_ult.
     bind_err (to_unit part2_ult Ksi) (\<lambda>part2_ult.
       let net_dist_1 = part1_edge_dist - ((bolt_dia + 0.125) / 2);
           net_dist_2 = part2_edge_dist - ((bolt_dia + 0.125) / 2);
           r_n1 = 1.2 * net_dist_1 * part1_t * part1_ult;
           r_n2 = 1.2 * net_dist_2 * part2_t * part2_ult
       in
       if design_method = ''ASD'' then Inr (r_n1 / 2.00, r_n2 / 2.00)
       else if design_method = ''LRFD'' then Inr (0.75 * r_n1, 0.75 * r_n2)
       else Inl ValueError)))))))"

definition tensile_strength_bolts :: "string \<Rightarrow> quantity \<Rightarrow> quantity \<Rightarrow> error + real" where
  "tensile_strength_bolts design_method bolt_dia f_u =
     bind_err (nominal_fastener_strength f_u) (\<lambda>(_, f_nt).
     bind_err (to_unit bolt_dia Inch) (\<lambda>bolt_dia.
       let r_n = f_nt * (pi / 4) * bolt_dia ^ 2 in
       if design_method = ''ASD'' then Inr (r_n / 2.00)
       else if design_method = ''LRFD'' then Inr (0.75 * r_n)
       else Inl ValueError))"

section \<open>connected_element.py\<close>

definition connected_elem_shear_yield_str ::
  "string \<Rightarrow> quantity \<Rightarrow> quantity \<Rightarrow> quantity \<Rightarrow> quantity \<Rightarrow> quantity \<Rightarrow> quantity
     \<Rightarrow> error + real \<times> real" where
  "connected_elem_shear_yield_str design_method part1_t part1_len part1_yield
       part2_t part2_len part2_yield =
     bind_err (to_unit part1_t Inch) (\<lambda>part1_t.
     bind_err (to_unit part1_len Inch) (\<lambda>part1_len.
     bind_err (to_unit part1_yield Ksi) (\<lambda>part1_yield.
     bind_err (to_unit part2_t Inch) (\<lambda>part2_t.
     bind_err (to_unit part2_len Inch) (\<lambda>part2_len.
     bind_err (to_unit part2_yield Ksi) (\<lambda>part2_yield.
       let r_n1 = 0.60 * part1_yield * (part1_t * part1_len);
           r_n2 = 0.60 * part2_yield * (part2_t * part2_len)
       in
       if design_method = ''ASD'' then Inr (r_n1 / 1.50, r_n2 / 1.50)
       else if design_method = ''LRFD'' then Inr (1.00 * r_n1, 1.00 * r_n2)
       else Inl ValueError))))))"

definition connected_elem_shear_rupture_str ::
  "string \<Rightarrow> quantity \<Rightarrow> int \<Rightarrow> quantity \<Rightarrow> quantity \<Rightarrow> quantity \<Rightarrow> quantity \<Rightarrow> quantity
     \<Rightarrow> quantity \<Rightarrow> error + real \<times> real" where
  "connected_elem_shear_rupture_str design_method bolt_dia bolt_count
       part1_t part1_len part1_ult part2_t part2_len part2_ult =
     bind_err (to_unit bolt_dia Inch) (\<lambda>bolt_dia.
     bind_err (to_unit part1_t Inch) (\<lambda>part1_t.
     bind_err (to_unit part1_len Inch) (\<lambda>part1_len.
     bind_err (to_unit part1_ult Ksi) (\<lambda>part1_ult.
     bind_err (to_unit part2_t Inch) (\<lambda>part2_t.
     bind_err (to_unit part2_len Inch) (\<lambda>part2_len.
     bind_err (to_unit part2_ult Ksi) (\<lambda>part2_ult.
       let net_width_1 = part1_len - (bolt_dia + 0.063) * of_int bolt_count;
           net_width_2 = part2_len - (bolt_dia + 0.063) * of_int bolt_count;
           a_nv1 = part1_t * net_width_1;
           a_nv2 = part2_t * net_width_2;
           r_n1 = 0.60 * part1_ult * a_nv1;
           r_n2 = 0.60 * part2_ult * a_nv2
       in
       if design_method = ''ASD'' then Inr (r_n1 / 2.00, r_n2 / 2.00)
       else if design_method = ''LRFD'' then Inr (0.75 * r_n1, 0.75 * r_n2)
       else Inl ValueError)))))))"

definition connected_elem_tensile_yield_str ::
  "string \<Rightarrow> quantity \<Rightarrow> quantity \<Rightarrow> quantity \<Rightarrow> quantity \<Rightarrow> quantity \<Rightarrow> quantity
     \<Rightarrow> error + real \<times> real" where
  "connected_elem_tensile_yield_str design_method part1_t part1_len part1_yield
       part2_t part2_len part2_yield =
     bind_err (to_unit part1_t Inch) (\<lambda>part1_t.
     bind_err (to_unit part1_len Inch) (\<lambda>part1_len.
     bind_err (to_unit part1_yield Ksi) (\<lambda>part1_yield.
     bind_err (to_unit part2_t Inch) (\<lambda>part2_t.
     bind_err (to_unit part2_len Inch) (\<lambda>part2_len.
     bind_err (to_unit part2_yield Ksi) (\<lambda>part2_yield.
       let r_n1 = part1_yield * (part1_t * part1_len);
           r_n2 = part2_yield * (part2_t * part2_len)
       in
       if design_method = ''ASD'' then Inr (r_n1 / 1.67, r_n2 / 1.67)
       else if design_method = ''LRFD'' then Inr (0.90 * r_n1, 0.90 * r_n2)
       else Inl ValueError))))))"

definition connected_elem_tensile_rupture_str ::
  "string \<Rightarrow> quantity \<Rightarrow> int \<Rightarrow> real \<Rightarrow> quantity \<Rightarrow> quantity \<Rightarrow> quantity \<Rightarrow> quantity
     \<Rightarrow> quantity \<Rightarrow> quantity \<Rightarrow> error + real \<times> real" where
  "connected_elem_tensile_rupture_str design_method bolt_dia bolt_count shear_lag
       part1_t part1_len part1_ult part2_t part2_len part2_ult =
     bind_err (to_unit bolt_dia Inch) (\<lambda>bolt_dia.
     bind_err (to_unit part1_t Inch) (\<lambda>part1_t.
     bind_err (to_unit part1_len Inch) (\<lambda>part1_len.
     bind_err (to_unit part1_ult Ksi) (\<lambda>part1_ult.
     bind_err (to_unit part2_t Inch) (\<lambda>part2_t.
     bind_err (to_unit part2_len Inch) (\<lambda>part2_len.
     bind_err (to_unit part2_ult Ksi) (\<lambda>part2_ult.
       let net_width_1 = part1_len - (bolt_dia + 0.063) * of_int bolt_count;
           net_width_2 = part2_len - (bolt_dia + 0.063) * of_int bolt_count;
           a_nv1 = part1_t * net_width_1;
           a_nv2 = part2_t * net_width_2;
           r_n1 = part1_ult * a_nv1 * shear_lag;
           r_n2 = part2_ult * a_nv2 * shear_lag
       in
       if design_method = ''ASD'' then Inr (r_n1 / 2.00, r_n2 / 2.00)
       else if design_method = ''LRFD'' then Inr (0.75 * r_n1, 0.75 * r_n2)
       else Inl ValueError)))))))"

section \<open>weld.py\<close>

text \<open>Python's \<^verbatim>\<open>min(a, b)\<close> keeps \<open>a\<close> unless \<open>b\<close> is strictly smaller.\<close>

definition py_min :: "real \<Rightarrow> real \<Rightarrow> real" where
  "py_min a b = (if b < a then b else a)"

text \<open>
  \<^verbatim>\<open>min_weld_size\<close> returns a bare float. Its \<^verbatim>\<open>if\<close>/\<^verbatim>\<open>elif\<close> chain has no
  \<^verbatim>\<open>else\<close>: falling through it returns \<^verbatim>\<open>None\<close>, which is the last branch here.
\<close>

definition min_weld_size :: "quantity \<Rightarrow> quantity \<Rightarrow> error + real option" where
  "min_weld_size part1_t part2_t =
     bind_err (to_unit part1_t Inch) (\<lambda>part1_t.
     bind_err (to_unit part2_t Inch) (\<lambda>part2_t.
       let t_min = py_min part1_t part2_t in
       if t_min < 0.25 then Inr (Some 0.1250)
       else if 0.25 \<le> t_min \<and> t_min < 0.5 then Inr (Some 0.1875)
       else if 0.5 \<le> t_min \<and> t_min < 0.75 then Inr (Some 0.2500)
       else if 0.75 \<le> t_min then Inr (Some 0.3125)
       else Inr None))"

definition weld_material_strength :: "string \<Rightarrow> real \<Rightarrow> quantity \<Rightarrow> int \<Rightarrow> error + real" where
  "weld_material_strength design_method weld_size weld_length weld_sides =
     bind_err (to_unit weld_length Inch) (\<lambda>weld_length.
       let r_n = 0.60 * 70 * (sqrt 2 / 2) * (weld_size / 16) * weld_length * of_int weld_sides in
       if design_method = ''ASD'' then Inr (r_n / 2.00)
       else if design_method = ''LRFD'' then Inr (0.75 * r_n)
       else Inl ValueError)"

text \<open>
  In \<^verbatim>\<open>weld_rupture_strength\<close> the variables \<^verbatim>\<open>t1_min\<close> and \<^verbatim>\<open>t2_min\<close> are assigned
  only under \<^verbatim>\<open>weld_sides == 1\<close> and \<^verbatim>\<open>weld_sides == 2\<close>; otherwise they stay unbound
  (\<open>None\<close> below) and the read in \<^verbatim>\<open>reduction_1 = part1_t / t1_min\<close> raises
  \<^verbatim>\<open>UnboundLocalError\<close>. The call of \<^verbatim>\<open>weld_material_strength\<close> receives the weld
  length already converted to inches.
\<close>

definition weld_rupture_strength ::
  "string \<Rightarrow> real \<Rightarrow> quantity \<Rightarrow> int \<Rightarrow> quantity \<Rightarrow> quantity \<Rightarrow> quantity \<Rightarrow> quantity
     \<Rightarrow> error + real" where
  "weld_rupture_strength design_method weld_size weld_length weld_sides
       part1_t part1_ult part2_t part2_ult =
     bind_err (to_unit weld_length Inch) (\<lambda>weld_length.
     bind_err (to_unit part1_t Inch) (\<lambda>part1_t.
     bind_err (to_unit part2_t Inch) (\<lambda>part2_t.
     bind_err (to_unit part1_ult Ksi) (\<lambda>part1_ult.
     bind_err (to_unit part2_ult Ksi) (\<lambda>part2_ult.
       let throat_area = 0.707 * (weld_size / 16);
           weld_strength_per_length = 0.60 * 70 * throat_area
       in
       bind_err
         (if weld_sides = 1 then
            bind_err (py_div weld_strength_per_length (0.6 * part1_ult)) (\<lambda>t1_min.
            bind_err (py_div weld_strength_per_length (0.6 * part2_ult)) (\<lambda>t2_min.
              Inr (Some (t1_min, t2_min))))
          else if weld_sides = 2 then
            bind_err (py_div (2 * weld_strength_per_length) (0.6 * part1_ult)) (\<lambda>t1_min.
            bind_err (py_div (2 * weld_strength_per_length) (0.6 * part2_ult)) (\<lambda>t2_min.
              Inr (Some (t1_min, t2_min))))
          else Inr None) (\<lambda>t_mins.
       bind_err
         (case t_mins of
            None \<Rightarrow> Inl UnboundLocalError
          | Some (t1_min, t2_min) \<Rightarrow>
              bind_err (py_div part1_t t1_min) (\<lambda>reduction_1.
              bind_err (py_div part2_t t2_min) (\<lambda>reduction_2.
                Inr (reduction_1, reduction_2)))) (\<lambda>(reduction_1, reduction_2).
       bind_err (weld_material_strength design_method weld_size
                   \<lparr>magnitude = weld_length, units = Inch\<rparr> weld_sides) (\<lambda>weld_mat_strength.
         if reduction_1 < 1 \<or> reduction_2 < 1
         then Inr (weld_mat_strength * py_min reduction_1 reduction_2)
         else Inr weld_mat_strength))))))))"

section \<open>Vocabulary of the properties\<close>

text \<open>An argument has the dimension its \<^verbatim>\<open>.to('inch')\<close> or \<^verbatim>\<open>.to('ksi')\<close> expects.\<close>

definition is_length :: "quantity \<Rightarrow> bool" where
  "is_length q = (dimension_of (units q) = Length)"

definition is_stress :: "quantity \<Rightarrow> bool" where
  "is_stress q = (dimension_of (units q) = Stress)"

text \<open>
  The value of the local variable \<^verbatim>\<open>reduction_i\<close> of \<^verbatim>\<open>weld_rupture_strength\<close> when
  \<^verbatim>\<open>weld_sides\<close> is 1 or 2: the part's thickness over the thickness \<^verbatim>\<open>t_i_min\<close> whose
  base-metal rupture strength matches the weld.
\<close>

definition reduction :: "real \<Rightarrow> int \<Rightarrow> quantity \<Rightarrow> quantity \<Rightarrow> real" where
  "reduction weld_size weld_sides part_t part_ult =
     canonical part_t /
       (of_int weld_sides * (0.60 * 70 * (0.707 * (weld_size / 16))) / (0.6 * canonical part_ult))"

text \<open>
  The value of the local variable \<^verbatim>\<open>net_width_i\<close> of the two rupture functions: the
  part's length less \<^verbatim>\<open>bolt_count\<close> holes of the bolt diameter plus 0.063 inch.
\<close>

definition net_width :: "quantity \<Rightarrow> int \<Rightarrow> quantity \<Rightarrow> real" where
  "net_width bolt_dia bolt_count part_len =
     canonical part_len - (canonical bolt_dia + 0.063) * of_int bolt_count"

section \<open>What each function computes\<close>

lemma bind_err_simps [simp]:
  "bind_err (Inl e) f = Inl e"
  "bind_err (Inr x) f = f x"
  by (simp_all add: bind_err_def)

lemma to_unit_Inch:
  "to_unit q Inch = (if is_length q then Inr (canonical q) else Inl DimensionalityError)"
  by (simp add: to_unit_def is_length_def)

lemma to_unit_Ksi:
  "to_unit q Ksi = (if is_stress q then Inr (canonical q) else Inl DimensionalityError)"
  by (simp add: to_unit_def is_stress_def)

lemma nominal_fastener_strength_eq:
  "nominal_fastener_strength f_u =
     (if is_stress f_u then Inr (0.45 * canonical f_u, 0.75 * canonical f_u)
      else Inl DimensionalityError)"
  by (simp add: nominal_fastener_strength_def to_unit_Ksi)

lemma shear_strength_bolts_eq:
  "shear_strength_bolts m d fu =
     (if is_length d \<and> is_stress fu then
        if m = ''ASD'' then Inr (0.45 * canonical fu * (pi / 4) * (canonical d)\<^sup>2 / 2)
        else if m = ''LRFD'' then Inr (0.75 * (0.45 * canonical fu * (pi / 4) * (canonical d)\<^sup>2))
        else Inl ValueError
      else Inl DimensionalityError)"
  by (simp add: shear_strength_bolts_def nominal_fastener_strength_eq to_unit_Inch)

lemma tensile_strength_bolts_eq:
  "tensile_strength_bolts m d fu =
     (if is_length d \<and> is_stress fu then
        if m = ''ASD'' then Inr (0.75 * canonical fu * (pi / 4) * (canonical d)\<^sup>2 / 2)
        else if m = ''LRFD'' then Inr (0.75 * (0.75 * canonical fu * (pi / 4) * (canonical d)\<^sup>2))
        else Inl ValueError
      else Inl DimensionalityError)"
  by (simp add: tensile_strength_bolts_def nominal_fastener_strength_eq to_unit_Inch)

lemma bearing_strength_bolts_eq:
  "bearing_strength_bolts m d t1 u1 t2 u2 =
     (if is_length d \<and> is_length t1 \<and> is_length t2 \<and> is_stress u1 \<and> is_stress u2 then
        if m = ''ASD'' then
          Inr (2.4 * canonical d * canonical t1 * canonical u1 / 2,
               2.4 * canonical d * canonical t2 * canonical u2 / 2)
        else if m = ''LRFD'' then
          Inr (0.75 * (2.4 * canonical d * canonical t1 * canonical u1),
               0.75 * (2.4 * canonical d * canonical t2 * canonical u2))
        else Inl ValueError
      else Inl DimensionalityError)"
  by (simp add: bearing_strength_bolts_def to_unit_Inch to_unit_Ksi Let_def)

lemma tearout_strength_bolts_eq:
  "tearout_strength_bolts m d e1 e2 t1 u1 t2 u2 =
     (if is_length d \<and> is_length e1 \<and> is_length e2 \<and> is_length t1 \<and> is_length t2
         \<and> is_stress u1 \<and> is_stress u2 then
        if m = ''ASD'' then
          Inr (1.2 * (canonical e1 - (canonical d + 0.125) / 2) * canonical t1 * canonical u1 / 2,
               1.2 * (canonical e2 - (canonical d + 0.125) / 2) * canonical t2 * canonical u2 / 2)
        else if m = ''LRFD'' then
          Inr (0.75 * (1.2 * (canonical e1 - (canonical d + 0.125) / 2) * canonical t1 * canonical u1),
               0.75 * (1.2 * (canonical e2 - (canonical d + 0.125) / 2) * canonical t2 * canonical u2))
        else Inl ValueError
      else Inl DimensionalityError)"
  by (simp add: tearout_strength_bolts_def to_unit_Inch to_unit_Ksi Let_def)

lemma connected_elem_shear_yield_str_eq:
  "connected_elem_shear_yield_str m t1 l1 y1 t2 l2 y2 =
     (if is_length t1 \<and> is_length l1 \<and> is_stress y1
         \<and> is_length t2 \<and> is_length l2 \<and> is_stress y2 then
        if m = ''ASD'' then
          Inr (0.60 * canonical y1 * (canonical t1 * canonical l1) / 1.50,
               0.60 * canonical y2 * (canonical t2 * canonical l2) / 1.50)
        else if m = ''LRFD'' then
          Inr (1.00 * (0.60 * canonical y1 * (canonical t1 * canonical l1)),
               1.00 * (0.60 * canonical y2 * (canonical t2 * canonical l2)))
        else Inl ValueError
      else Inl DimensionalityError)"
  by (simp add: connected_elem_shear_yield_str_def to_unit_Inch to_unit_Ksi Let_def)

lemma connected_elem_tensile_yield_str_eq:
  "connected_elem_tensile_yield_str m t1 l1 y1 t2 l2 y2 =
     (if is_length t1 \<and> is_length l1 \<and> is_stress y1
         \<and> is_length t2 \<and> is_length l2 \<and> is_stress y2 then
        if m = ''ASD'' then
          Inr (canonical y1 * (canonical t1 * canonical l1) / 1.67,
               canonical y2 * (canonical t2 * canonical l2) / 1.67)
        else if m = ''LRFD'' then
          Inr (0.90 * (canonical y1 * (canonical t1 * canonical l1)),
               0.90 * (canonical y2 * (canonical t2 * canonical l2)))
        else Inl ValueError
      else Inl DimensionalityError)"
  by (simp add: connected_elem_tensile_yield_str_def to_unit_Inch to_unit_Ksi Let_def)

lemma connected_elem_shear_rupture_str_eq:
  "connected_elem_shear_rupture_str m d n t1 l1 u1 t2 l2 u2 =
     (if is_length d \<and> is_length t1 \<and> is_length l1 \<and> is_stress u1
         \<and> is_length t2 \<and> is_length l2 \<and> is_stress u2 then
        if m = ''ASD'' then
          Inr (0.60 * canonical u1
                 * (canonical t1 * (canonical l1 - (canonical d + 0.063) * of_int n)) / 2,
               0.60 * canonical u2
                 * (canonical t2 * (canonical l2 - (canonical d + 0.063) * of_int n)) / 2)
        else if m = ''LRFD'' then
          Inr (0.75 * (0.60 * canonical u1
                 * (canonical t1 * (canonical l1 - (canonical d + 0.063) * of_int n))),
               0.75 * (0.60 * canonical u2
                 * (canonical t2 * (canonical l2 - (canonical d + 0.063) * of_int n))))
        else Inl ValueError
      else Inl DimensionalityError)"
  by (simp add: connected_elem_shear_rupture_str_def to_unit_Inch to_unit_Ksi Let_def)

lemma connected_elem_tensile_rupture_str_eq:
  "connected_elem_tensile_rupture_str m d n lag t1 l1 u1 t2 l2 u2 =
     (if is_length d \<and> is_length t1 \<and> is_length l1 \<and> is_stress u1
         \<and> is_length t2 \<and> is_length l2 \<and> is_stress u2 then
        if m = ''ASD'' then
          Inr (canonical u1
                 * (canonical t1 * (canonical l1 - (canonical d + 0.063) * of_int n)) * lag / 2,
               canonical u2
                 * (canonical t2 * (canonical l2 - (canonical d + 0.063) * of_int n)) * lag / 2)
        else if m = ''LRFD'' then
          Inr (0.75 * (canonical u1
                 * (canonical t1 * (canonical l1 - (canonical d + 0.063) * of_int n)) * lag),
               0.75 * (canonical u2
                 * (canonical t2 * (canonical l2 - (canonical d + 0.063) * of_int n)) * lag))
        else Inl ValueError
      else Inl DimensionalityError)"
  by (simp add: connected_elem_tensile_rupture_str_def to_unit_Inch to_unit_Ksi Let_def)

lemma weld_material_strength_eq:
  "weld_material_strength m ws wl sides =
     (if is_length wl then
        if m = ''ASD'' then
          Inr (0.60 * 70 * (sqrt 2 / 2) * (ws / 16) * canonical wl * of_int sides / 2)
        else if m = ''LRFD'' then
          Inr (0.75 * (0.60 * 70 * (sqrt 2 / 2) * (ws / 16) * canonical wl * of_int sides))
        else Inl ValueError
      else Inl DimensionalityError)"
  by (simp add: weld_material_strength_def to_unit_Inch Let_def)

lemma py_min_eq: "py_min a b = min a b"
  by (simp add: py_min_def min_def)

lemma min_weld_size_eq:
  "min_weld_size t1 t2 =
     (if is_length t1 \<and> is_length t2 then
        Inr (Some (if min (canonical t1) (canonical t2) < 0.25 then 0.1250
                   else if min (canonical t1) (canonical t2) < 0.5 then 0.1875
                   else if min (canonical t1) (canonical t2) < 0.75 then 0.2500
                   else 0.3125))
      else Inl DimensionalityError)"
  by (auto simp add: min_weld_size_def to_unit_Inch py_min_eq Let_def)

lemma canonical_converted: "canonical \<lparr>magnitude = x, units = Inch\<rparr> = x"
  by (simp add: canonical_def)

lemma is_length_converted: "is_length \<lparr>magnitude = x, units = Inch\<rparr>"
  by (simp add: is_length_def)

lemma weld_material_strength_converted:
  "is_length wl \<Longrightarrow>
     weld_material_strength m ws \<lparr>magnitude = canonical wl, units = Inch\<rparr> sides
       = weld_material_strength m ws wl sides"
  by (simp add: weld_material_strength_eq canonical_converted is_length_converted)

lemma weld_rupture_strength_eq:
  "weld_rupture_strength m ws wl sides t1 u1 t2 u2 =
     (if \<not> (is_length wl \<and> is_length t1 \<and> is_length t2 \<and> is_stress u1 \<and> is_stress u2)
        then Inl DimensionalityError
      else if sides \<noteq> 1 \<and> sides \<noteq> 2 then Inl UnboundLocalError
      else if canonical u1 = 0 \<or> canonical u2 = 0 \<or> ws = 0 then Inl ZeroDivisionError
      else bind_err (weld_material_strength m ws wl sides) (\<lambda>w.
        if reduction ws sides t1 u1 < 1 \<or> reduction ws sides t2 u2 < 1
        then Inr (w * min (reduction ws sides t1 u1) (reduction ws sides t2 u2))
        else Inr w))"
  by (cases "weld_material_strength m ws wl sides")
    (auto simp add: weld_rupture_strength_def to_unit_Inch to_unit_Ksi Let_def py_div_def
      py_min_eq reduction_def weld_material_strength_converted)

section \<open>Bounds on \<open>pi\<close>\<close>

text \<open>
  The worked example of the bolt shear strength is stated to two decimals, which needs
  \<open>pi\<close> to three. The bounds come from the Maclaurin expansion of the cosine around its
  zero at \<open>pi / 2\<close>.
\<close>

lemma sum_lessThan_10:
  fixes f :: "nat \<Rightarrow> real"
  shows "(\<Sum>m<10. f m) = f 0 + f 1 + f 2 + f 3 + f 4 + f 5 + f 6 + f 7 + f 8 + f 9"
  by (simp add: eval_nat_numeral)

lemma cos_coeff_values:
  "cos_coeff 0 = 1" "cos_coeff 1 = 0" "cos_coeff 2 = - 1 / 2" "cos_coeff 3 = 0"
  "cos_coeff 4 = 1 / 24" "cos_coeff 5 = 0" "cos_coeff 6 = - 1 / 720" "cos_coeff 7 = 0"
  "cos_coeff 8 = 1 / 40320" "cos_coeff 9 = 0"
  by (simp_all add: cos_coeff_def fact_numeral)

lemma cos_poly_bounds:
  fixes x :: real
  assumes "0 < x"
  shows "1 - x\<^sup>2 / 2 + x ^ 4 / 24 - x ^ 6 / 720 + x ^ 8 / 40320 - x ^ 10 / 3628800 \<le> cos x"
    and "cos x \<le> 1 - x\<^sup>2 / 2 + x ^ 4 / 24 - x ^ 6 / 720 + x ^ 8 / 40320 + x ^ 10 / 3628800"
proof -
  obtain t where t: "cos x = (\<Sum>m<10. cos_coeff m * x ^ m) + (cos (t + 1/2 * real (10::nat) * pi) / fact 10) * x ^ 10"
    using Maclaurin_cos_expansion2 [of x 10] assms by auto
  have s: "(\<Sum>m<10. cos_coeff m * x ^ m) = 1 - x\<^sup>2 / 2 + x ^ 4 / 24 - x ^ 6 / 720 + x ^ 8 / 40320"
    unfolding sum_lessThan_10 cos_coeff_values by simp
  have f: "fact 10 = (3628800::real)"
    by (simp add: fact_numeral)
  define c where "c = cos (t + 1/2 * real (10::nat) * pi)"
  have c: "\<bar>c\<bar> \<le> 1"
    unfolding c_def by (rule abs_cos_le_one)
  have x10: "0 \<le> x ^ 10 / 3628800" using assms by simp
  have "c / 3628800 * x ^ 10 = c * (x ^ 10 / 3628800)" by simp
  moreover have "\<bar>c * (x ^ 10 / 3628800)\<bar> \<le> 1 * (x ^ 10 / 3628800)"
    unfolding abs_mult using c x10 by (intro mult_mono) auto
  ultimately have r: "\<bar>c / 3628800 * x ^ 10\<bar> \<le> x ^ 10 / 3628800" by simp
  have e: "cos x = 1 - x\<^sup>2 / 2 + x ^ 4 / 24 - x ^ 6 / 720 + x ^ 8 / 40320 + c / 3628800 * x ^ 10"
    using t unfolding s f c_def by simp
  show "1 - x\<^sup>2 / 2 + x ^ 4 / 24 - x ^ 6 / 720 + x ^ 8 / 40320 - x ^ 10 / 3628800 \<le> cos x"
    using r unfolding e by linarith
  show "cos x \<le> 1 - x\<^sup>2 / 2 + x ^ 4 / 24 - x ^ 6 / 720 + x ^ 8 / 40320 + x ^ 10 / 3628800"
    using r unfolding e by linarith
qed

lemma pi_lower: "3.1404 < pi"
proof -
  let ?x = "15702 / 10000 :: real"
  have "0 < 1 - ?x\<^sup>2 / 2 + ?x ^ 4 / 24 - ?x ^ 6 / 720 + ?x ^ 8 / 40320 - ?x ^ 10 / 3628800"
    by (simp add: power_divide)
  with cos_poly_bounds(1) [of ?x] have pos: "0 < cos ?x" by simp
  have "?x < pi / 2"
  proof (rule ccontr)
    assume "\<not> ?x < pi / 2"
    then have "pi / 2 \<le> ?x" by simp
    moreover have "?x \<le> pi" using pi_ge_two by simp
    moreover have "0 \<le> pi / 2" by simp
    ultimately have "cos ?x \<le> cos (pi / 2)" by (intro cos_monotone_0_pi_le)
    with pos show False by simp
  qed
  then show ?thesis by simp
qed

lemma pi_upper: "pi < 3.1420"
proof -
  let ?x = "15710 / 10000 :: real"
  have "1 - ?x\<^sup>2 / 2 + ?x ^ 4 / 24 - ?x ^ 6 / 720 + ?x ^ 8 / 40320 + ?x ^ 10 / 3628800 < 0"
    by (simp add: power_divide)
  with cos_poly_bounds(2) [of ?x] have neg: "cos ?x < 0" by simp
  have "pi / 2 < ?x"
  proof (rule ccontr)
    assume "\<not> pi / 2 < ?x"
    then have "?x \<le> pi / 2" by simp
    moreover have "pi / 2 \<le> pi" by simp
    moreover have "0 \<le> ?x" by simp
    ultimately have "cos (pi / 2) \<le> cos ?x" by (intro cos_monotone_0_pi_le)
    with neg show False by simp
  qed
  then show ?thesis by simp
qed

section \<open>The claims\<close>

text \<open>
  C1. For every limit state and every input whose quantities have the expected dimensions,
  the ASD result is the nominal strength \<open>Rn\<close> divided by the limit state's safety factor
  and the LRFD result is \<open>Rn\<close> multiplied by its reduction factor, with the pairs
  (2.00, 0.75) for bolt shear, bolt tension, bolt bearing, bolt tearout, element shear
  rupture, element tensile rupture and weld material strength, (1.50, 1.00) for element
  shear yield and (1.67, 0.90) for element tensile yield. In each equation below \<open>Rn\<close> is
  the expression the source assigns to \<^verbatim>\<open>r_n\<close>, over the normalised magnitudes.
\<close>

theorem design_method_factors:
  assumes "is_length d" "is_length t1" "is_length t2" "is_length l1" "is_length l2"
    and "is_length e1" "is_length e2" "is_length wl"
    and "is_stress fu" "is_stress s1" "is_stress s2"
  shows
    "shear_strength_bolts ''ASD'' d fu
       = Inr (0.45 * canonical fu * (pi / 4) * (canonical d)\<^sup>2 / 2.00)
   \<and> shear_strength_bolts ''LRFD'' d fu
       = Inr (0.45 * canonical fu * (pi / 4) * (canonical d)\<^sup>2 * 0.75)
   \<and> tensile_strength_bolts ''ASD'' d fu
       = Inr (0.75 * canonical fu * (pi / 4) * (canonical d)\<^sup>2 / 2.00)
   \<and> tensile_strength_bolts ''LRFD'' d fu
       = Inr (0.75 * canonical fu * (pi / 4) * (canonical d)\<^sup>2 * 0.75)
   \<and> bearing_strength_bolts ''ASD'' d t1 s1 t2 s2
       = Inr (2.4 * canonical d * canonical t1 * canonical s1 / 2.00,
              2.4 * canonical d * canonical t2 * canonical s2 / 2.00)
   \<and> bearing_strength_bolts ''LRFD'' d t1 s1 t2 s2
       = Inr (2.4 * canonical d * canonical t1 * canonical s1 * 0.75,
              2.4 * canonical d * canonical t2 * canonical s2 * 0.75)
   \<and> tearout_strength_bolts ''ASD'' d e1 e2 t1 s1 t2 s2
       = Inr (1.2 * (canonical e1 - (canonical d + 0.125) / 2) * canonical t1 * canonical s1 / 2.00,
              1.2 * (canonical e2 - (canonical d + 0.125) / 2) * canonical t2 * canonical s2 / 2.00)
   \<and> tearout_strength_bolts ''LRFD'' d e1 e2 t1 s1 t2 s2
       = Inr (1.2 * (canonical e1 - (canonical d + 0.125) / 2) * canonical t1 * canonical s1 * 0.75,
              1.2 * (canonical e2 - (canonical d + 0.125) / 2) * canonical t2 * canonical s2 * 0.75)
   \<and> connected_elem_shear_yield_str ''ASD'' t1 l1 s1 t2 l2 s2
       = Inr (0.60 * canonical s1 * (canonical t1 * canonical l1) / 1.50,
              0.60 * canonical s2 * (canonical t2 * canonical l2) / 1.50)
   \<and> connected_elem_shear_yield_str ''LRFD'' t1 l1 s1 t2 l2 s2
       = Inr (0.60 * canonical s1 * (canonical t1 * canonical l1) * 1.00,
              0.60 * canonical s2 * (canonical t2 * canonical l2) * 1.00)
   \<and> connected_elem_shear_rupture_str ''ASD'' d n t1 l1 s1 t2 l2 s2
       = Inr (0.60 * canonical s1
                * (canonical t1 * (canonical l1 - (canonical d + 0.063) * of_int n)) / 2.00,
              0.60 * canonical s2
                * (canonical t2 * (canonical l2 - (canonical d + 0.063) * of_int n)) / 2.00)
   \<and> connected_elem_shear_rupture_str ''LRFD'' d n t1 l1 s1 t2 l2 s2
       = Inr (0.60 * canonical s1
                * (canonical t1 * (canonical l1 - (canonical d + 0.063) * of_int n)) * 0.75,
              0.60 * canonical s2
                * (canonical t2 * (canonical l2 - (canonical d + 0.063) * of_int n)) * 0.75)
   \<and> connected_elem_tensile_yield_str ''ASD'' t1 l1 s1 t2 l2 s2
       = Inr (canonical s1 * (canonical t1 * canonical l1) / 1.67,
              canonical s2 * (canonical t2 * canonical l2) / 1.67)
   \<and> connected_elem_tensile_yield_str ''LRFD'' t1 l1 s1 t2 l2 s2
       = Inr (canonical s1 * (canonical t1 * canonical l1) * 0.90,
              canonical s2 * (canonical t2 * canonical l2) * 0.90)
   \<and> connected_elem_tensile_rupture_str ''ASD'' d n lag t1 l1 s1 t2 l2 s2
       = Inr (canonical s1
                * (canonical t1 * (canonical l1 - (canonical d + 0.063) * of_int n)) * lag / 2.00,
              canonical s2
                * (canonical t2 * (canonical l2 - (canonical d + 0.063) * of_int n)) * lag / 2.00)
   \<and> connected_elem_tensile_rupture_str ''LRFD'' d n lag t1 l1 s1 t2 l2 s2
       = Inr (canonical s1
                * (canonical t1 * (canonical l1 - (canonical d + 0.063) * of_int n)) * lag * 0.75,
              canonical s2
                * (canonical t2 * (canonical l2 - (canonical d + 0.063) * of_int n)) * lag * 0.75)
   \<and> weld_material_strength ''ASD'' ws wl sides
       = Inr (0.60 * 70 * (sqrt 2 / 2) * (ws / 16) * canonical wl * of_int sides / 2.00)
   \<and> weld_material_strength ''LRFD'' ws wl sides
       = Inr (0.60 * 70 * (sqrt 2 / 2) * (ws / 16) * canonical wl * of_int sides * 0.75)"
  using assms
  by (intro conjI)
    (simp_all add: shear_strength_bolts_eq tensile_strength_bolts_eq bearing_strength_bolts_eq
      tearout_strength_bolts_eq connected_elem_shear_yield_str_eq
      connected_elem_shear_rupture_str_eq connected_elem_tensile_yield_str_eq
      connected_elem_tensile_rupture_str_eq weld_material_strength_eq)

theorem design_method_factors_witness:
  "is_length \<lparr>magnitude = 0.75, units = Inch\<rparr>
   \<and> is_length \<lparr>magnitude = 0.5, units = Inch\<rparr>
   \<and> is_length \<lparr>magnitude = 9.525, units = Millimeter\<rparr>
   \<and> is_length \<lparr>magnitude = 1, units = Foot\<rparr>
   \<and> is_stress \<lparr>magnitude = 120, units = Ksi\<rparr>
   \<and> is_stress \<lparr>magnitude = 58, units = Ksi\<rparr>
   \<and> is_stress \<lparr>magnitude = 58000, units = Psi\<rparr>
   \<and> bearing_strength_bolts ''ASD'' \<lparr>magnitude = 0.75, units = Inch\<rparr>
         \<lparr>magnitude = 0.5, units = Inch\<rparr> \<lparr>magnitude = 58, units = Ksi\<rparr>
         \<lparr>magnitude = 9.525, units = Millimeter\<rparr> \<lparr>magnitude = 58000, units = Psi\<rparr>
       = Inr (26.1, 19.575)
   \<and> connected_elem_tensile_yield_str ''LRFD''
         \<lparr>magnitude = 0.5, units = Inch\<rparr> \<lparr>magnitude = 1, units = Foot\<rparr>
         \<lparr>magnitude = 58, units = Ksi\<rparr>
         \<lparr>magnitude = 9.525, units = Millimeter\<rparr> \<lparr>magnitude = 1, units = Foot\<rparr>
         \<lparr>magnitude = 58000, units = Psi\<rparr>
       = Inr (313.2, 234.9)"
  using design_method_factors [of "\<lparr>magnitude = 0.75, units = Inch\<rparr>"
      "\<lparr>magnitude = 0.5, units = Inch\<rparr>" "\<lparr>magnitude = 9.525, units = Millimeter\<rparr>"
      "\<lparr>magnitude = 1, units = Foot\<rparr>" "\<lparr>magnitude = 1, units = Foot\<rparr>"
      "\<lparr>magnitude = 1, units = Foot\<rparr>" "\<lparr>magnitude = 1, units = Foot\<rparr>"
      "\<lparr>magnitude = 1, units = Foot\<rparr>" "\<lparr>magnitude = 120, units = Ksi\<rparr>"
      "\<lparr>magnitude = 58, units = Ksi\<rparr>" "\<lparr>magnitude = 58000, units = Psi\<rparr>"]
  by (simp add: is_length_def is_stress_def canonical_def)

text \<open>
  C2. For every bolt diameter and ultimate stress the nominal fastener stresses are
  \<open>f_nv = 0.45 * f_u\<close> and \<open>f_nt = 0.75 * f_u\<close>; the nominal bolt strengths are
  \<open>f_nv * (pi / 4) * dia\<^sup>2\<close> for \<^verbatim>\<open>shear_strength_bolts\<close> and \<open>f_nt * (pi / 4) * dia\<^sup>2\<close> for
  \<^verbatim>\<open>tensile_strength_bolts\<close>, to which the factor of the design method is applied; and
  \<^verbatim>\<open>shear_strength_bolts("LRFD", 0.75 in, 120 ksi)\<close> is \<open>0.75 * 54 * (pi / 4) * 0.75\<^sup>2\<close>,
  which is 17.89 kip to two decimals.
\<close>

theorem bolt_nominal_strengths:
  assumes "is_length bolt_dia" and "is_stress f_u"
  shows
    "nominal_fastener_strength f_u = Inr (0.45 * canonical f_u, 0.75 * canonical f_u)
   \<and> shear_strength_bolts ''ASD'' bolt_dia f_u
       = Inr ((0.45 * canonical f_u) * (pi / 4) * (canonical bolt_dia)\<^sup>2 / 2.00)
   \<and> shear_strength_bolts ''LRFD'' bolt_dia f_u
       = Inr (0.75 * ((0.45 * canonical f_u) * (pi / 4) * (canonical bolt_dia)\<^sup>2))
   \<and> tensile_strength_bolts ''ASD'' bolt_dia f_u
       = Inr ((0.75 * canonical f_u) * (pi / 4) * (canonical bolt_dia)\<^sup>2 / 2.00)
   \<and> tensile_strength_bolts ''LRFD'' bolt_dia f_u
       = Inr (0.75 * ((0.75 * canonical f_u) * (pi / 4) * (canonical bolt_dia)\<^sup>2))
   \<and> shear_strength_bolts ''LRFD'' \<lparr>magnitude = 0.75, units = Inch\<rparr>
         \<lparr>magnitude = 120, units = Ksi\<rparr>
       = Inr (0.75 * (54 * ((pi / 4) * 0.75\<^sup>2)))
   \<and> \<bar>0.75 * (54 * ((pi / 4) * 0.75\<^sup>2)) - 17.89\<bar> < (0.005::real)"
proof -
  have general:
    "nominal_fastener_strength f_u = Inr (0.45 * canonical f_u, 0.75 * canonical f_u)
   \<and> shear_strength_bolts ''ASD'' bolt_dia f_u
       = Inr ((0.45 * canonical f_u) * (pi / 4) * (canonical bolt_dia)\<^sup>2 / 2.00)
   \<and> shear_strength_bolts ''LRFD'' bolt_dia f_u
       = Inr (0.75 * ((0.45 * canonical f_u) * (pi / 4) * (canonical bolt_dia)\<^sup>2))
   \<and> tensile_strength_bolts ''ASD'' bolt_dia f_u
       = Inr ((0.75 * canonical f_u) * (pi / 4) * (canonical bolt_dia)\<^sup>2 / 2.00)
   \<and> tensile_strength_bolts ''LRFD'' bolt_dia f_u
       = Inr (0.75 * ((0.75 * canonical f_u) * (pi / 4) * (canonical bolt_dia)\<^sup>2))"
    using assms
    by (simp add: nominal_fastener_strength_eq shear_strength_bolts_eq tensile_strength_bolts_eq)
  have example:
    "shear_strength_bolts ''LRFD'' \<lparr>magnitude = 0.75, units = Inch\<rparr>
         \<lparr>magnitude = 120, units = Ksi\<rparr>
       = Inr (0.75 * (54 * ((pi / 4) * 0.75\<^sup>2)))"
    by (simp add: shear_strength_bolts_eq is_length_def is_stress_def canonical_def)
  have value_eq: "0.75 * (54 * ((pi / 4) * 0.75\<^sup>2)) = 729 / 128 * pi"
    by (simp add: power2_eq_square)
  have approx: "\<bar>0.75 * (54 * ((pi / 4) * 0.75\<^sup>2)) - 17.89\<bar> < (0.005::real)"
  proof -
    have "17.885 < 729 / 128 * pi \<and> 729 / 128 * pi < 17.895"
      using pi_lower pi_upper by simp
    then show ?thesis
      unfolding value_eq abs_less_iff by simp
  qed
  from general example approx show ?thesis by blast
qed

theorem bolt_nominal_strengths_witness:
  "is_length \<lparr>magnitude = 19.05, units = Millimeter\<rparr>
   \<and> is_stress \<lparr>magnitude = 120000, units = Psi\<rparr>
   \<and> nominal_fastener_strength \<lparr>magnitude = 120000, units = Psi\<rparr> = Inr (54, 90)
   \<and> shear_strength_bolts ''LRFD'' \<lparr>magnitude = 19.05, units = Millimeter\<rparr>
         \<lparr>magnitude = 120000, units = Psi\<rparr>
       = Inr (0.75 * (54 * (pi / 4) * 0.75\<^sup>2))"
  using bolt_nominal_strengths [of "\<lparr>magnitude = 19.05, units = Millimeter\<rparr>"
      "\<lparr>magnitude = 120000, units = Psi\<rparr>"]
  by (simp add: is_length_def is_stress_def canonical_def)

text \<open>
  C3. For every input with quantities of the expected dimensions, \<^verbatim>\<open>weld_sides\<close> 1 or 2
  and nonzero weld size and ultimate stresses: when both base-metal reductions
  (thickness over required minimum thickness) are at least 1,
  \<^verbatim>\<open>weld_rupture_strength\<close> returns exactly what \<^verbatim>\<open>weld_material_strength\<close> returns for the
  same method, weld size, length and sides; when either reduction is below 1 it returns
  that value multiplied by the smaller reduction. For a valid method
  \<^verbatim>\<open>weld_material_strength\<close> does return a value.
\<close>

theorem weld_rupture_governing:
  assumes "is_length wl" "is_length t1" "is_length t2" "is_stress u1" "is_stress u2"
    and "sides = 1 \<or> sides = 2"
    and "ws \<noteq> 0" "canonical u1 \<noteq> 0" "canonical u2 \<noteq> 0"
  shows
    "(1 \<le> reduction ws sides t1 u1 \<and> 1 \<le> reduction ws sides t2 u2 \<longrightarrow>
        weld_rupture_strength m ws wl sides t1 u1 t2 u2
          = weld_material_strength m ws wl sides)
   \<and> (reduction ws sides t1 u1 < 1 \<or> reduction ws sides t2 u2 < 1 \<longrightarrow>
        weld_rupture_strength m ws wl sides t1 u1 t2 u2
          = map_sum id (\<lambda>w. w * min (reduction ws sides t1 u1) (reduction ws sides t2 u2))
              (weld_material_strength m ws wl sides))
   \<and> (m = ''ASD'' \<or> m = ''LRFD'' \<longrightarrow>
        (\<exists>w. weld_material_strength m ws wl sides = Inr w))"
proof -
  have run: "weld_rupture_strength m ws wl sides t1 u1 t2 u2 =
      bind_err (weld_material_strength m ws wl sides) (\<lambda>w.
        if reduction ws sides t1 u1 < 1 \<or> reduction ws sides t2 u2 < 1
        then Inr (w * min (reduction ws sides t1 u1) (reduction ws sides t2 u2))
        else Inr w)"
    using assms by (auto simp add: weld_rupture_strength_eq)
  have thick: "weld_rupture_strength m ws wl sides t1 u1 t2 u2
          = weld_material_strength m ws wl sides"
    if "1 \<le> reduction ws sides t1 u1 \<and> 1 \<le> reduction ws sides t2 u2"
    using that unfolding run
    by (cases "weld_material_strength m ws wl sides") (simp_all add: not_less [symmetric])
  have thin: "weld_rupture_strength m ws wl sides t1 u1 t2 u2
          = map_sum id (\<lambda>w. w * min (reduction ws sides t1 u1) (reduction ws sides t2 u2))
              (weld_material_strength m ws wl sides)"
    if "reduction ws sides t1 u1 < 1 \<or> reduction ws sides t2 u2 < 1"
    using that unfolding run
    by (cases "weld_material_strength m ws wl sides") auto
  have returns: "\<exists>w. weld_material_strength m ws wl sides = Inr w"
    if "m = ''ASD'' \<or> m = ''LRFD''"
  proof -
    have "weld_material_strength m ws wl sides
        = Inr (0.60 * 70 * (sqrt 2 / 2) * (ws / 16) * canonical wl * of_int sides / 2)
      \<or> weld_material_strength m ws wl sides
        = Inr (0.75 * (0.60 * 70 * (sqrt 2 / 2) * (ws / 16) * canonical wl * of_int sides))"
      using that assms(1) by (auto simp add: weld_material_strength_eq)
    then show ?thesis by blast
  qed
  from thick thin returns show ?thesis by blast
qed

theorem weld_rupture_governing_witness:
  "is_length \<lparr>magnitude = 6, units = Inch\<rparr>
   \<and> is_length \<lparr>magnitude = 1, units = Inch\<rparr>
   \<and> is_length \<lparr>magnitude = 2.54, units = Millimeter\<rparr>
   \<and> is_stress \<lparr>magnitude = 58, units = Ksi\<rparr>
   \<and> 1 \<le> reduction 4 1 \<lparr>magnitude = 1, units = Inch\<rparr> \<lparr>magnitude = 58, units = Ksi\<rparr>
   \<and> reduction 4 1 \<lparr>magnitude = 2.54, units = Millimeter\<rparr> \<lparr>magnitude = 58, units = Ksi\<rparr> < 1
   \<and> weld_rupture_strength ''LRFD'' 4 \<lparr>magnitude = 6, units = Inch\<rparr> 1
         \<lparr>magnitude = 1, units = Inch\<rparr> \<lparr>magnitude = 58, units = Ksi\<rparr>
         \<lparr>magnitude = 1, units = Inch\<rparr> \<lparr>magnitude = 58, units = Ksi\<rparr>
       = weld_material_strength ''LRFD'' 4 \<lparr>magnitude = 6, units = Inch\<rparr> 1
   \<and> weld_rupture_strength ''LRFD'' 4 \<lparr>magnitude = 6, units = Inch\<rparr> 1
         \<lparr>magnitude = 1, units = Inch\<rparr> \<lparr>magnitude = 58, units = Ksi\<rparr>
         \<lparr>magnitude = 2.54, units = Millimeter\<rparr> \<lparr>magnitude = 58, units = Ksi\<rparr>
       = map_sum id (\<lambda>w. w * (2320 / 4949))
           (weld_material_strength ''LRFD'' 4 \<lparr>magnitude = 6, units = Inch\<rparr> 1)"
proof -
  have dims: "is_length \<lparr>magnitude = 6, units = Inch\<rparr>"
    "is_length \<lparr>magnitude = 1, units = Inch\<rparr>"
    "is_length \<lparr>magnitude = 2.54, units = Millimeter\<rparr>"
    "is_stress \<lparr>magnitude = 58, units = Ksi\<rparr>"
    by (simp_all add: is_length_def is_stress_def)
  have nonzero: "(1::int) = 1 \<or> (1::int) = 2" "(4::real) \<noteq> 0"
    "canonical \<lparr>magnitude = 58, units = Ksi\<rparr> \<noteq> 0"
    by (simp_all add: canonical_def)
  have thick: "reduction 4 1 \<lparr>magnitude = 1, units = Inch\<rparr> \<lparr>magnitude = 58, units = Ksi\<rparr>
      = 23200 / 4949"
    by (simp add: reduction_def canonical_def)
  have thin: "reduction 4 1 \<lparr>magnitude = 2.54, units = Millimeter\<rparr>
      \<lparr>magnitude = 58, units = Ksi\<rparr> = 2320 / 4949"
    by (simp add: reduction_def canonical_def)
  show ?thesis
    using weld_rupture_governing [OF dims(1) dims(2) dims(2) dims(4) dims(4) nonzero(1) nonzero(2)
        nonzero(3) nonzero(3), of "''LRFD''"]
      weld_rupture_governing [OF dims(1) dims(2) dims(3) dims(4) dims(4) nonzero(1) nonzero(2)
        nonzero(3) nonzero(3), of "''LRFD''"]
      dims
    unfolding thick thin by simp
qed

text \<open>
  C4. For every input with quantities of the expected dimensions, both rupture functions
  use the net width \<open>len_i - (dia + 0.063) * bolt_count\<close> and the net area
  \<open>t_i * net_width_i\<close> of each part; shear rupture has \<open>Rn_i = 0.60 * fu_i * area_i\<close>, tensile
  rupture has \<open>Rn_i = fu_i * area_i * shear_lag\<close>; and when the net width of a part is not
  positive (its thickness, stress and the shear lag being non-negative) a strength is
  still returned, and it is not positive.
\<close>

theorem rupture_net_area:
  assumes "is_length d" "is_length t1" "is_length l1" "is_stress u1"
    and "is_length t2" "is_length l2" "is_stress u2"
  shows
    "connected_elem_shear_rupture_str ''ASD'' d n t1 l1 u1 t2 l2 u2
       = Inr (0.60 * canonical u1 * (canonical t1 * net_width d n l1) / 2.00,
              0.60 * canonical u2 * (canonical t2 * net_width d n l2) / 2.00)
   \<and> connected_elem_shear_rupture_str ''LRFD'' d n t1 l1 u1 t2 l2 u2
       = Inr (0.75 * (0.60 * canonical u1 * (canonical t1 * net_width d n l1)),
              0.75 * (0.60 * canonical u2 * (canonical t2 * net_width d n l2)))
   \<and> connected_elem_tensile_rupture_str ''ASD'' d n lag t1 l1 u1 t2 l2 u2
       = Inr (canonical u1 * (canonical t1 * net_width d n l1) * lag / 2.00,
              canonical u2 * (canonical t2 * net_width d n l2) * lag / 2.00)
   \<and> connected_elem_tensile_rupture_str ''LRFD'' d n lag t1 l1 u1 t2 l2 u2
       = Inr (0.75 * (canonical u1 * (canonical t1 * net_width d n l1) * lag),
              0.75 * (canonical u2 * (canonical t2 * net_width d n l2) * lag))
   \<and> ((m = ''ASD'' \<or> m = ''LRFD'') \<and> 0 \<le> canonical t1 \<and> 0 \<le> canonical u1
         \<and> net_width d n l1 \<le> 0 \<longrightarrow>
        (\<exists>r1 r2. connected_elem_shear_rupture_str m d n t1 l1 u1 t2 l2 u2 = Inr (r1, r2)
           \<and> r1 \<le> 0))
   \<and> ((m = ''ASD'' \<or> m = ''LRFD'') \<and> 0 \<le> canonical t2 \<and> 0 \<le> canonical u2
         \<and> net_width d n l2 \<le> 0 \<longrightarrow>
        (\<exists>r1 r2. connected_elem_shear_rupture_str m d n t1 l1 u1 t2 l2 u2 = Inr (r1, r2)
           \<and> r2 \<le> 0))
   \<and> ((m = ''ASD'' \<or> m = ''LRFD'') \<and> 0 \<le> canonical t1 \<and> 0 \<le> canonical u1 \<and> 0 \<le> lag
         \<and> net_width d n l1 \<le> 0 \<longrightarrow>
        (\<exists>r1 r2. connected_elem_tensile_rupture_str m d n lag t1 l1 u1 t2 l2 u2 = Inr (r1, r2)
           \<and> r1 \<le> 0))
   \<and> ((m = ''ASD'' \<or> m = ''LRFD'') \<and> 0 \<le> canonical t2 \<and> 0 \<le> canonical u2 \<and> 0 \<le> lag
         \<and> net_width d n l2 \<le> 0 \<longrightarrow>
        (\<exists>r1 r2. connected_elem_tensile_rupture_str m d n lag t1 l1 u1 t2 l2 u2 = Inr (r1, r2)
           \<and> r2 \<le> 0))"
proof -
  have formulas:
    "connected_elem_shear_rupture_str ''ASD'' d n t1 l1 u1 t2 l2 u2
       = Inr (0.60 * canonical u1 * (canonical t1 * net_width d n l1) / 2.00,
              0.60 * canonical u2 * (canonical t2 * net_width d n l2) / 2.00)"
    "connected_elem_shear_rupture_str ''LRFD'' d n t1 l1 u1 t2 l2 u2
       = Inr (0.75 * (0.60 * canonical u1 * (canonical t1 * net_width d n l1)),
              0.75 * (0.60 * canonical u2 * (canonical t2 * net_width d n l2)))"
    "connected_elem_tensile_rupture_str ''ASD'' d n lag t1 l1 u1 t2 l2 u2
       = Inr (canonical u1 * (canonical t1 * net_width d n l1) * lag / 2.00,
              canonical u2 * (canonical t2 * net_width d n l2) * lag / 2.00)"
    "connected_elem_tensile_rupture_str ''LRFD'' d n lag t1 l1 u1 t2 l2 u2
       = Inr (0.75 * (canonical u1 * (canonical t1 * net_width d n l1) * lag),
              0.75 * (canonical u2 * (canonical t2 * net_width d n l2) * lag))"
    using assms
    by (simp_all add: connected_elem_shear_rupture_str_eq connected_elem_tensile_rupture_str_eq
        net_width_def)
  have sign: "u * (t * w) \<le> 0" if "0 \<le> t" "0 \<le> u" "w \<le> 0" for t u w :: real
    using that by (simp add: mult_nonneg_nonpos)
  have shear_sign:
    "0.60 * u * (t * w) / 2.00 \<le> 0" "0.75 * (0.60 * u * (t * w)) \<le> 0"
    if "0 \<le> t" "0 \<le> u" "w \<le> 0" for t u w :: real
  proof -
    have "0.60 * u * (t * w) \<le> 0"
      using that by (intro mult_nonneg_nonpos mult_nonneg_nonneg) simp_all
    then show "0.60 * u * (t * w) / 2.00 \<le> 0" "0.75 * (0.60 * u * (t * w)) \<le> 0"
      by (simp_all only: divide_le_0_iff mult_le_0_iff) simp_all
  qed
  have tensile_sign:
    "u * (t * w) * g / 2.00 \<le> 0" "0.75 * (u * (t * w) * g) \<le> 0"
    if "0 \<le> t" "0 \<le> u" "w \<le> 0" "0 \<le> g" for t u w g :: real
  proof -
    have "u * (t * w) * g \<le> 0"
      using sign [OF that(1,2,3)] that(4) by (rule mult_nonpos_nonneg)
    then show "u * (t * w) * g / 2.00 \<le> 0" "0.75 * (u * (t * w) * g) \<le> 0"
      by (simp_all only: divide_le_0_iff mult_le_0_iff) simp_all
  qed
  have shear1: "\<exists>r1 r2. connected_elem_shear_rupture_str m d n t1 l1 u1 t2 l2 u2 = Inr (r1, r2)
           \<and> r1 \<le> 0"
    if "(m = ''ASD'' \<or> m = ''LRFD'') \<and> 0 \<le> canonical t1 \<and> 0 \<le> canonical u1
         \<and> net_width d n l1 \<le> 0"
  proof -
    from that have s: "0 \<le> canonical t1" "0 \<le> canonical u1" "net_width d n l1 \<le> 0"
      by simp_all
    from that consider "m = ''ASD''" | "m = ''LRFD''" by blast
    then show ?thesis
      by cases (use formulas(1,2) shear_sign [OF s] in blast)+
  qed
  have shear2: "\<exists>r1 r2. connected_elem_shear_rupture_str m d n t1 l1 u1 t2 l2 u2 = Inr (r1, r2)
           \<and> r2 \<le> 0"
    if "(m = ''ASD'' \<or> m = ''LRFD'') \<and> 0 \<le> canonical t2 \<and> 0 \<le> canonical u2
         \<and> net_width d n l2 \<le> 0"
  proof -
    from that have s: "0 \<le> canonical t2" "0 \<le> canonical u2" "net_width d n l2 \<le> 0"
      by simp_all
    from that consider "m = ''ASD''" | "m = ''LRFD''" by blast
    then show ?thesis
      by cases (use formulas(1,2) shear_sign [OF s] in blast)+
  qed
  have tensile1: "\<exists>r1 r2. connected_elem_tensile_rupture_str m d n lag t1 l1 u1 t2 l2 u2
           = Inr (r1, r2) \<and> r1 \<le> 0"
    if "(m = ''ASD'' \<or> m = ''LRFD'') \<and> 0 \<le> canonical t1 \<and> 0 \<le> canonical u1 \<and> 0 \<le> lag
         \<and> net_width d n l1 \<le> 0"
  proof -
    from that have s: "0 \<le> canonical t1" "0 \<le> canonical u1" "net_width d n l1 \<le> 0"
      "0 \<le> lag"
      by simp_all
    from that consider "m = ''ASD''" | "m = ''LRFD''" by blast
    then show ?thesis
      by cases (use formulas(3,4) tensile_sign [OF s] in blast)+
  qed
  have tensile2: "\<exists>r1 r2. connected_elem_tensile_rupture_str m d n lag t1 l1 u1 t2 l2 u2
           = Inr (r1, r2) \<and> r2 \<le> 0"
    if "(m = ''ASD'' \<or> m = ''LRFD'') \<and> 0 \<le> canonical t2 \<and> 0 \<le> canonical u2 \<and> 0 \<le> lag
         \<and> net_width d n l2 \<le> 0"
  proof -
    from that have s: "0 \<le> canonical t2" "0 \<le> canonical u2" "net_width d n l2 \<le> 0"
      "0 \<le> lag"
      by simp_all
    from that consider "m = ''ASD''" | "m = ''LRFD''" by blast
    then show ?thesis
      by cases (use formulas(3,4) tensile_sign [OF s] in blast)+
  qed
  from formulas shear1 shear2 tensile1 tensile2 show ?thesis by blast
qed

theorem rupture_net_area_witness:
  "is_length \<lparr>magnitude = 0.75, units = Inch\<rparr>
   \<and> is_length \<lparr>magnitude = 0.5, units = Inch\<rparr>
   \<and> is_length \<lparr>magnitude = 6, units = Inch\<rparr>
   \<and> is_length \<lparr>magnitude = 1, units = Foot\<rparr>
   \<and> is_stress \<lparr>magnitude = 58, units = Ksi\<rparr>
   \<and> 0 \<le> canonical \<lparr>magnitude = 0.5, units = Inch\<rparr>
   \<and> 0 \<le> canonical \<lparr>magnitude = 58, units = Ksi\<rparr>
   \<and> net_width \<lparr>magnitude = 0.75, units = Inch\<rparr> 10 \<lparr>magnitude = 6, units = Inch\<rparr> \<le> 0
   \<and> connected_elem_shear_rupture_str ''ASD'' \<lparr>magnitude = 0.75, units = Inch\<rparr> 10
         \<lparr>magnitude = 0.5, units = Inch\<rparr> \<lparr>magnitude = 6, units = Inch\<rparr>
         \<lparr>magnitude = 58, units = Ksi\<rparr>
         \<lparr>magnitude = 0.5, units = Inch\<rparr> \<lparr>magnitude = 1, units = Foot\<rparr>
         \<lparr>magnitude = 58, units = Ksi\<rparr>
       = Inr (- 18.531, 33.669)
   \<and> connected_elem_tensile_rupture_str ''LRFD'' \<lparr>magnitude = 0.75, units = Inch\<rparr> 10 1
         \<lparr>magnitude = 0.5, units = Inch\<rparr> \<lparr>magnitude = 6, units = Inch\<rparr>
         \<lparr>magnitude = 58, units = Ksi\<rparr>
         \<lparr>magnitude = 0.5, units = Inch\<rparr> \<lparr>magnitude = 1, units = Foot\<rparr>
         \<lparr>magnitude = 58, units = Ksi\<rparr>
       = Inr (- 46.3275, 84.1725)"
  using rupture_net_area [of "\<lparr>magnitude = 0.75, units = Inch\<rparr>"
      "\<lparr>magnitude = 0.5, units = Inch\<rparr>" "\<lparr>magnitude = 6, units = Inch\<rparr>"
      "\<lparr>magnitude = 58, units = Ksi\<rparr>"
      "\<lparr>magnitude = 0.5, units = Inch\<rparr>" "\<lparr>magnitude = 1, units = Foot\<rparr>"
      "\<lparr>magnitude = 58, units = Ksi\<rparr>" 10 1 "''ASD''"]
  by (simp add: is_length_def is_stress_def canonical_def net_width_def)

text \<open>
  C7. \<^verbatim>\<open>min_weld_size\<close> is a step function of the smaller thickness in inches with
  brackets closed below and open above at 0.25, 0.5 and 0.75, returning one of 0.1250,
  0.1875, 0.2500 and 0.3125: below 0.25 it is 0.1250, from 0.25 (included) to 0.5 it is
  0.1875, from 0.5 to 0.75 it is 0.2500, and from 0.75 (included) on it is 0.3125.
\<close>

theorem min_weld_size_brackets:
  assumes "is_length t1" and "is_length t2"
  shows
    "(min (canonical t1) (canonical t2) < 0.25 \<longrightarrow>
        min_weld_size t1 t2 = Inr (Some 0.1250))
   \<and> (0.25 \<le> min (canonical t1) (canonical t2) \<and> min (canonical t1) (canonical t2) < 0.5 \<longrightarrow>
        min_weld_size t1 t2 = Inr (Some 0.1875))
   \<and> (0.5 \<le> min (canonical t1) (canonical t2) \<and> min (canonical t1) (canonical t2) < 0.75 \<longrightarrow>
        min_weld_size t1 t2 = Inr (Some 0.2500))
   \<and> (0.75 \<le> min (canonical t1) (canonical t2) \<longrightarrow>
        min_weld_size t1 t2 = Inr (Some 0.3125))
   \<and> min_weld_size t1 t2
        \<in> {Inr (Some 0.1250), Inr (Some 0.1875), Inr (Some 0.2500), Inr (Some 0.3125)}"
proof -
  define t_min where "t_min = min (canonical t1) (canonical t2)"
  have "min_weld_size t1 t2 =
      Inr (Some (if t_min < 0.25 then 0.1250 else if t_min < 0.5 then 0.1875
                 else if t_min < 0.75 then 0.2500 else 0.3125))"
    using assms by (simp add: min_weld_size_eq t_min_def)
  then show ?thesis
    unfolding t_min_def [symmetric] by auto
qed

theorem min_weld_size_brackets_witness:
  "is_length \<lparr>magnitude = 0.25, units = Inch\<rparr>
   \<and> is_length \<lparr>magnitude = 1, units = Inch\<rparr>
   \<and> is_length \<lparr>magnitude = 19.05, units = Millimeter\<rparr>
   \<and> min_weld_size \<lparr>magnitude = 0.25, units = Inch\<rparr> \<lparr>magnitude = 1, units = Inch\<rparr>
       = Inr (Some 0.1875)
   \<and> min_weld_size \<lparr>magnitude = 1, units = Inch\<rparr> \<lparr>magnitude = 19.05, units = Millimeter\<rparr>
       = Inr (Some 0.3125)"
  using min_weld_size_brackets [of "\<lparr>magnitude = 0.25, units = Inch\<rparr>"
      "\<lparr>magnitude = 1, units = Inch\<rparr>"]
    min_weld_size_brackets [of "\<lparr>magnitude = 1, units = Inch\<rparr>"
      "\<lparr>magnitude = 19.05, units = Millimeter\<rparr>"]
  by (simp add: is_length_def canonical_def)

text \<open>
  C8, as stated: when the smaller thickness is negative \<^verbatim>\<open>min_weld_size\<close> returns no
  value. The source has no test for a negative thickness: such a value is below 0.25 and
  takes the first branch.
\<close>

theorem min_weld_size_negative_counterexample:
  "min_weld_size \<lparr>magnitude = - 1, units = Inch\<rparr> \<lparr>magnitude = 1, units = Inch\<rparr>
     = Inr (Some 0.1250)"
  by (simp add: min_weld_size_def to_unit_def canonical_def py_min_def)

text \<open>
  C8, amended: when the smaller thickness is negative \<^verbatim>\<open>min_weld_size\<close> returns 0.1250,
  the value of the lowest bracket.
\<close>

theorem min_weld_size_negative:
  assumes "is_length t1" and "is_length t2"
    and "min (canonical t1) (canonical t2) < 0"
  shows "min_weld_size t1 t2 = Inr (Some 0.1250)"
proof -
  from assms(3) have "min (canonical t1) (canonical t2) < 0.25" by simp
  with assms(1,2) show ?thesis by (simp add: min_weld_size_eq)
qed

theorem min_weld_size_negative_witness:
  "is_length \<lparr>magnitude = 1, units = Inch\<rparr>
   \<and> is_length \<lparr>magnitude = - 2, units = Millimeter\<rparr>
   \<and> min (canonical \<lparr>magnitude = 1, units = Inch\<rparr>)
         (canonical \<lparr>magnitude = - 2, units = Millimeter\<rparr>) < 0
   \<and> min_weld_size \<lparr>magnitude = 1, units = Inch\<rparr> \<lparr>magnitude = - 2, units = Millimeter\<rparr>
       = Inr (Some 0.1250)"
  using min_weld_size_negative [of "\<lparr>magnitude = 1, units = Inch\<rparr>"
      "\<lparr>magnitude = - 2, units = Millimeter\<rparr>"]
  by (simp add: is_length_def canonical_def)

text \<open>
  C5. For every limit-state function, called with a design method other than \<^verbatim>\<open>"ASD"\<close>
  and \<^verbatim>\<open>"LRFD"\<close> and with otherwise valid arguments (every quantity of the expected
  dimension and, for \<^verbatim>\<open>weld_rupture_strength\<close>, \<^verbatim>\<open>weld_sides\<close> 1 or 2 and nonzero weld size
  and ultimate stresses), the call fails with the invalid-design-method \<^verbatim>\<open>ValueError\<close>:
  no value is returned and neither method is taken as a default.
\<close>

theorem invalid_design_method:
  assumes "m \<noteq> ''ASD''" and "m \<noteq> ''LRFD''"
    and "is_length d" "is_length t1" "is_length t2" "is_length l1" "is_length l2"
    and "is_length e1" "is_length e2" "is_length wl"
    and "is_stress fu" "is_stress u1" "is_stress u2"
  shows
    "shear_strength_bolts m d fu = Inl ValueError
   \<and> tensile_strength_bolts m d fu = Inl ValueError
   \<and> bearing_strength_bolts m d t1 u1 t2 u2 = Inl ValueError
   \<and> tearout_strength_bolts m d e1 e2 t1 u1 t2 u2 = Inl ValueError
   \<and> connected_elem_shear_yield_str m t1 l1 u1 t2 l2 u2 = Inl ValueError
   \<and> connected_elem_shear_rupture_str m d n t1 l1 u1 t2 l2 u2 = Inl ValueError
   \<and> connected_elem_tensile_yield_str m t1 l1 u1 t2 l2 u2 = Inl ValueError
   \<and> connected_elem_tensile_rupture_str m d n lag t1 l1 u1 t2 l2 u2 = Inl ValueError
   \<and> weld_material_strength m ws wl sides = Inl ValueError
   \<and> ((sides = 1 \<or> sides = 2) \<and> ws \<noteq> 0 \<and> canonical u1 \<noteq> 0 \<and> canonical u2 \<noteq> 0 \<longrightarrow>
        weld_rupture_strength m ws wl sides t1 u1 t2 u2 = Inl ValueError)"
proof -
  have direct:
    "shear_strength_bolts m d fu = Inl ValueError"
    "tensile_strength_bolts m d fu = Inl ValueError"
    "bearing_strength_bolts m d t1 u1 t2 u2 = Inl ValueError"
    "tearout_strength_bolts m d e1 e2 t1 u1 t2 u2 = Inl ValueError"
    "connected_elem_shear_yield_str m t1 l1 u1 t2 l2 u2 = Inl ValueError"
    "connected_elem_shear_rupture_str m d n t1 l1 u1 t2 l2 u2 = Inl ValueError"
    "connected_elem_tensile_yield_str m t1 l1 u1 t2 l2 u2 = Inl ValueError"
    "connected_elem_tensile_rupture_str m d n lag t1 l1 u1 t2 l2 u2 = Inl ValueError"
    using assms
    by (simp_all add: shear_strength_bolts_eq tensile_strength_bolts_eq
        bearing_strength_bolts_eq tearout_strength_bolts_eq connected_elem_shear_yield_str_eq
        connected_elem_shear_rupture_str_eq connected_elem_tensile_yield_str_eq
        connected_elem_tensile_rupture_str_eq)
  have material: "weld_material_strength m ws wl sides = Inl ValueError"
    using assms by (simp add: weld_material_strength_eq)
  have rupture: "weld_rupture_strength m ws wl sides t1 u1 t2 u2 = Inl ValueError"
    if "(sides = 1 \<or> sides = 2) \<and> ws \<noteq> 0 \<and> canonical u1 \<noteq> 0 \<and> canonical u2 \<noteq> 0"
    using that assms unfolding weld_rupture_strength_eq material by auto
  from direct material rupture show ?thesis by blast
qed

theorem invalid_design_method_witness:
  "''XYZ'' \<noteq> ''ASD'' \<and> ''XYZ'' \<noteq> ''LRFD''
   \<and> is_length \<lparr>magnitude = 0.75, units = Inch\<rparr>
   \<and> is_length \<lparr>magnitude = 1, units = Inch\<rparr>
   \<and> is_stress \<lparr>magnitude = 120, units = Ksi\<rparr>
   \<and> canonical \<lparr>magnitude = 120, units = Ksi\<rparr> \<noteq> 0
   \<and> shear_strength_bolts ''XYZ'' \<lparr>magnitude = 0.75, units = Inch\<rparr>
         \<lparr>magnitude = 120, units = Ksi\<rparr>
       = Inl ValueError
   \<and> bearing_strength_bolts ''XYZ'' \<lparr>magnitude = 0.75, units = Inch\<rparr>
         \<lparr>magnitude = 1, units = Inch\<rparr> \<lparr>magnitude = 120, units = Ksi\<rparr>
         \<lparr>magnitude = 1, units = Inch\<rparr> \<lparr>magnitude = 120, units = Ksi\<rparr>
       = Inl ValueError
   \<and> weld_rupture_strength ''XYZ'' 4 \<lparr>magnitude = 0.75, units = Inch\<rparr> 1
         \<lparr>magnitude = 1, units = Inch\<rparr> \<lparr>magnitude = 120, units = Ksi\<rparr>
         \<lparr>magnitude = 1, units = Inch\<rparr> \<lparr>magnitude = 120, units = Ksi\<rparr>
       = Inl ValueError"
proof -
  have other: "''XYZ'' \<noteq> ''ASD''" "''XYZ'' \<noteq> ''LRFD''"
    by simp_all
  have dims: "is_length \<lparr>magnitude = 0.75, units = Inch\<rparr>"
    "is_length \<lparr>magnitude = 1, units = Inch\<rparr>"
    "is_stress \<lparr>magnitude = 120, units = Ksi\<rparr>"
    by (simp_all add: is_length_def is_stress_def)
  have nonzero: "canonical \<lparr>magnitude = 120, units = Ksi\<rparr> \<noteq> 0"
    by (simp add: canonical_def)
  show ?thesis
    using other dims nonzero
      invalid_design_method [OF other dims(1) dims(2) dims(2) dims(2) dims(2) dims(2) dims(2)
        dims(1) dims(3) dims(3) dims(3), of 1 1 4 1]
    by simp
qed

text \<open>
  C6, at the input \<^verbatim>\<open>weld_sides = 3\<close> with every other argument valid. The chain
  \<^verbatim>\<open>if weld_sides == 1: ... elif weld_sides == 2: ...\<close> has no \<^verbatim>\<open>else\<close>, so neither
  \<^verbatim>\<open>t1_min\<close> nor \<^verbatim>\<open>t2_min\<close> is assigned and the next statement,
  \<^verbatim>\<open>reduction_1 = part1_t / t1_min\<close>, stops with Python's \<^verbatim>\<open>UnboundLocalError\<close>. The
  docstring allows 1 or 2 only, and the design method, the other selector argument, is
  refused with an explicit \<^verbatim>\<open>raise ValueError\<close>; the weld sides are never tested.
\<close>

theorem weld_sides_three_unbound_local:
  "weld_rupture_strength ''ASD'' 4 \<lparr>magnitude = 6, units = Inch\<rparr> 3
       \<lparr>magnitude = 1, units = Inch\<rparr> \<lparr>magnitude = 58, units = Ksi\<rparr>
       \<lparr>magnitude = 1, units = Inch\<rparr> \<lparr>magnitude = 58, units = Ksi\<rparr>
     = Inl UnboundLocalError"
  by (simp add: weld_rupture_strength_def to_unit_def canonical_def)

text \<open>
  C10. Exchanging the arguments of part 1 with those of part 2 exchanges the two
  components of the pair returned by bolt bearing, bolt tearout, element shear yield,
  shear rupture, tensile yield and tensile rupture (an error stays the same error), with
  method, diameter, bolt count and shear lag fixed; \<^verbatim>\<open>min_weld_size\<close> and
  \<^verbatim>\<open>weld_rupture_strength\<close> return the same result under the exchange.
\<close>

theorem part_exchange:
  "bearing_strength_bolts m d t2 u2 t1 u1
     = map_sum id prod.swap (bearing_strength_bolts m d t1 u1 t2 u2)
   \<and> tearout_strength_bolts m d e2 e1 t2 u2 t1 u1
     = map_sum id prod.swap (tearout_strength_bolts m d e1 e2 t1 u1 t2 u2)
   \<and> connected_elem_shear_yield_str m t2 l2 u2 t1 l1 u1
     = map_sum id prod.swap (connected_elem_shear_yield_str m t1 l1 u1 t2 l2 u2)
   \<and> connected_elem_shear_rupture_str m d n t2 l2 u2 t1 l1 u1
     = map_sum id prod.swap (connected_elem_shear_rupture_str m d n t1 l1 u1 t2 l2 u2)
   \<and> connected_elem_tensile_yield_str m t2 l2 u2 t1 l1 u1
     = map_sum id prod.swap (connected_elem_tensile_yield_str m t1 l1 u1 t2 l2 u2)
   \<and> connected_elem_tensile_rupture_str m d n lag t2 l2 u2 t1 l1 u1
     = map_sum id prod.swap (connected_elem_tensile_rupture_str m d n lag t1 l1 u1 t2 l2 u2)
   \<and> min_weld_size t2 t1 = min_weld_size t1 t2
   \<and> weld_rupture_strength m ws wl sides t2 u2 t1 u1
     = weld_rupture_strength m ws wl sides t1 u1 t2 u2"
proof -
  have pairs:
    "bearing_strength_bolts m d t2 u2 t1 u1
       = map_sum id prod.swap (bearing_strength_bolts m d t1 u1 t2 u2)"
    "tearout_strength_bolts m d e2 e1 t2 u2 t1 u1
       = map_sum id prod.swap (tearout_strength_bolts m d e1 e2 t1 u1 t2 u2)"
    "connected_elem_shear_yield_str m t2 l2 u2 t1 l1 u1
       = map_sum id prod.swap (connected_elem_shear_yield_str m t1 l1 u1 t2 l2 u2)"
    "connected_elem_shear_rupture_str m d n t2 l2 u2 t1 l1 u1
       = map_sum id prod.swap (connected_elem_shear_rupture_str m d n t1 l1 u1 t2 l2 u2)"
    "connected_elem_tensile_yield_str m t2 l2 u2 t1 l1 u1
       = map_sum id prod.swap (connected_elem_tensile_yield_str m t1 l1 u1 t2 l2 u2)"
    "connected_elem_tensile_rupture_str m d n lag t2 l2 u2 t1 l1 u1
       = map_sum id prod.swap (connected_elem_tensile_rupture_str m d n lag t1 l1 u1 t2 l2 u2)"
    by (auto simp add: bearing_strength_bolts_eq tearout_strength_bolts_eq
        connected_elem_shear_yield_str_eq connected_elem_shear_rupture_str_eq
        connected_elem_tensile_yield_str_eq connected_elem_tensile_rupture_str_eq)
  have size: "min_weld_size t2 t1 = min_weld_size t1 t2"
    unfolding min_weld_size_eq min.commute [of "canonical t2" "canonical t1"]
    by (simp add: conj_commute)
  have rupture: "weld_rupture_strength m ws wl sides t2 u2 t1 u1
       = weld_rupture_strength m ws wl sides t1 u1 t2 u2"
    unfolding weld_rupture_strength_eq
      min.commute [of "reduction ws sides t2 u2" "reduction ws sides t1 u1"]
      disj_commute [of "reduction ws sides t2 u2 < 1" "reduction ws sides t1 u1 < 1"]
    by auto
  from pairs size rupture show ?thesis by blast
qed

theorem part_exchange_witness:
  "bearing_strength_bolts ''ASD'' \<lparr>magnitude = 0.75, units = Inch\<rparr>
       \<lparr>magnitude = 0.375, units = Inch\<rparr> \<lparr>magnitude = 58, units = Ksi\<rparr>
       \<lparr>magnitude = 0.5, units = Inch\<rparr> \<lparr>magnitude = 58, units = Ksi\<rparr>
     = Inr (19.575, 26.1)
   \<and> bearing_strength_bolts ''ASD'' \<lparr>magnitude = 0.75, units = Inch\<rparr>
       \<lparr>magnitude = 0.5, units = Inch\<rparr> \<lparr>magnitude = 58, units = Ksi\<rparr>
       \<lparr>magnitude = 0.375, units = Inch\<rparr> \<lparr>magnitude = 58, units = Ksi\<rparr>
     = Inr (26.1, 19.575)"
proof -
  have direct: "bearing_strength_bolts ''ASD'' \<lparr>magnitude = 0.75, units = Inch\<rparr>
       \<lparr>magnitude = 0.5, units = Inch\<rparr> \<lparr>magnitude = 58, units = Ksi\<rparr>
       \<lparr>magnitude = 0.375, units = Inch\<rparr> \<lparr>magnitude = 58, units = Ksi\<rparr>
     = Inr (26.1, 19.575)"
    by (simp add: bearing_strength_bolts_eq is_length_def is_stress_def canonical_def)
  from part_exchange [of "''ASD''" "\<lparr>magnitude = 0.75, units = Inch\<rparr>"
      "\<lparr>magnitude = 0.375, units = Inch\<rparr>" "\<lparr>magnitude = 58, units = Ksi\<rparr>"
      "\<lparr>magnitude = 0.5, units = Inch\<rparr>" "\<lparr>magnitude = 58, units = Ksi\<rparr>"]
  have "bearing_strength_bolts ''ASD'' \<lparr>magnitude = 0.75, units = Inch\<rparr>
       \<lparr>magnitude = 0.375, units = Inch\<rparr> \<lparr>magnitude = 58, units = Ksi\<rparr>
       \<lparr>magnitude = 0.5, units = Inch\<rparr> \<lparr>magnitude = 58, units = Ksi\<rparr>
     = map_sum id prod.swap (bearing_strength_bolts ''ASD'' \<lparr>magnitude = 0.75, units = Inch\<rparr>
       \<lparr>magnitude = 0.5, units = Inch\<rparr> \<lparr>magnitude = 58, units = Ksi\<rparr>
       \<lparr>magnitude = 0.375, units = Inch\<rparr> \<lparr>magnitude = 58, units = Ksi\<rparr>)"
    by (rule conjunct1)
  with direct show ?thesis by simp
qed

end
